theory Spec2Isabelle
  imports Complex_Main "HOL-Library.Char_ord" "HOL-Library.List_Lexorder" "HOL-Library.Sublist"
begin

section \<open>Strings and cells\<close>

text \<open>
  A Python \<open>str\<close> is modelled as a \<open>string\<close> of ASCII text. Within ASCII, the characters
  that \<open>str.strip()\<close> removes are the codes 9 to 13, 28 to 31 and 32, and \<open>str.lower()\<close>
  maps \<open>A\<close>..\<open>Z\<close> to \<open>a\<close>..\<open>z\<close>. The model leaves every other character alone; Python
  also trims and lowers characters beyond ASCII, which the survey's catalog does not use.
\<close>

definition is_space :: "char \<Rightarrow> bool" where
  "is_space c = (let n = (of_char c :: nat) in (9 \<le> n \<and> n \<le> 13) \<or> (28 \<le> n \<and> n \<le> 32))"

definition strip :: "string \<Rightarrow> string" where
  "strip s = rev (dropWhile is_space (rev (dropWhile is_space s)))"

text \<open>
  A cell of a pandas column. \<open>NaN\<close> and \<open>PyNone\<close> are the two missing values the source
  tests for (\<open>pd.isna(value)\<close>, \<open>value is None\<close>); every other value is carried as
  \<open>Val s\<close> with \<open>s\<close> its string conversion \<open>str(value)\<close>, the only thing the source reads
  of it.
\<close>

datatype cell = NaN | PyNone | Val string

fun isna :: "cell \<Rightarrow> bool" where
  "isna NaN = True"
| "isna PyNone = True"
| "isna (Val s) = False"

definition notna :: "cell \<Rightarrow> bool" where
  "notna v = (\<not> isna v)"

text \<open>\<open>str(value)\<close>, also what \<open>Series.astype(str)\<close> gives for each element.\<close>

fun str :: "cell \<Rightarrow> string" where
  "str NaN = ''nan''"
| "str PyNone = ''None''"
| "str (Val s) = s"

definition dropna :: "cell list \<Rightarrow> cell list" where
  "dropna series = filter notna series"

section \<open>The answer catalog\<close>

text \<open>
  The module constants \<open>DEMOGRAPHIC_COLS\<close>, \<open>ALLOWED\<close> (a dict, here in its declared
  order) and \<open>MULTI_SELECT\<close> (a set, only ever tested for membership).
\<close>

definition DEMOGRAPHIC_COLS :: "string list" where
  "DEMOGRAPHIC_COLS = [
    ''How many years of professional experience do you have?'',
    ''Which best describes your current role?'',
    ''What is your gender?''
  ]"

definition ALLOWED :: "(string \<times> string list) list" where
  "ALLOWED = [
    (''In the last 6 months, have you experienced any of the following?'',
      [''Missed a promotion or opportunity'',
       ''Received critical feedback about leadership or influence'',
       ''Felt ineffective managing others'',
       ''Struggled with conflict or alignment'',
       ''Felt stuck despite strong technical skills'',
       ''None of the above'']),
    (''Which of the following do you believe most contributed to these outcomes?'',
      [''Gaps in my leadership or interpersonal skills'',
       ''Lack of clear feedback or expectations'',
       ''Organizational politics or bias'',
       ''Limited opportunity or timing'',
       ''I'm not sure what the real cause is'',
       ''Other (open text)'']),
    (''Which of these best describes your current motivation to improve leadership skills?'',
      [''I am actively trying to improve right now'',
       ''I know I should improve, but haven't taken action'',
       ''It matters, but not urgent'',
       ''Not a priority for me'']),
    (''In the last 12 months, how much have you personally spent on professional or leadership development?'',
      [''0'',
       ''<$100'',
       ''$100-$500'',
       ''$500-$1,500'',
       ''$1,500+'']),
    (''What best explains the reason for your spending on leadership development over the past 12 months?'',
      [''My employer typically pays for this'',
       ''I didn't actively look for solutions'',
       ''I looked, but didn't find anything credible'',
       ''I found options, but they felt too expensive'',
       ''I don't usually pay for self-development'',
       ''Other (open text)'']),
    (''What have you personally paid for?'',
      [''Online course'',
       ''Assessment or personality test'',
       ''Coaching (group or 1:1)'',
       ''Books or learning subscriptions'',
       ''Nothing paid personally'']),
    (''If a leadership assessment + personalized training system clearly improved your effectiveness as a leader, what would feel like a reasonable monthly price?'',
      [''0'',
       ''$10-$25'',
       ''$25-$50'',
       ''$50-$100'',
       ''$100+'']),
    (''When it comes to leadership or professional development, I generally expect:'',
      [''My Employer to pay'',
       ''A mix of employer and personal spending'',
       ''To pay myself'']),
    (''Have you ever used a leadership or personality assessment that was NOT required by an employer?'',
      [''Yes'',
       ''No'']),
    (''Which sources do you take feedback on your capabilities from seriously?'',
      [''Manager'',
       ''Peers'',
       ''Coach or Mentor'',
       ''Assessment tools'',
       ''Self-reflection only'',
       ''I generally distrust feedback'']),
    (''Seeing my leadership skills benchmarked against others would feel:'',
      [''Motivating'',
       ''Interesting but neutral'',
       ''Anxiety-inducing'',
       ''Not useful'',
       ''Actively discouraging'']),
    (''Think about the last self-improvement effort you started on your own. What happened?'',
      [''I stuck with it consistently'',
       ''I stayed engaged for a while, then dropped off'',
       ''I barely got started'',
       ''I avoid self-directed programs'']),
    (''What most often causes you to stop engaging with self-development tools?'',
      [''Time constraints'',
       ''Lack of accountability'',
       ''Content wasn't relevant'',
       ''Hard to see progress'',
       ''Lost motivation'',
       ''Cost'',
       ''Other'']),
    (''What would most increase your likelihood of sticking with a leadership development system?'',
      [''Clear progress tracking'',
       ''Personalized recommendations'',
       ''Social comparison or benchmarks'',
       ''External accountability (coach, group)'',
       ''Short, lightweight activities'']),
    (''How many years of professional experience do you have?'',
      [''0-3'',
       ''4-7'',
       ''8-15'',
       ''16+'']),
    (''Which best describes your current role?'',
      [''Individual Contributor'',
       ''People Manager'',
       ''Senior Leader'',
       ''Founder/Executive'']),
    (''What is your gender?'',
      [''Male'',
       ''Female'',
       ''Prefer not to say''])
  ]"

definition MULTI_SELECT :: "string list" where
  "MULTI_SELECT = [
    ''In the last 6 months, have you experienced any of the following?'',
    ''What have you personally paid for?'',
    ''Which sources do you take feedback on your capabilities from seriously?'',
    ''What most often causes you to stop engaging with self-development tools?''
  ]"

text \<open>\<open>ALLOWED.get(col, None)\<close>; the keys of \<open>ALLOWED\<close> are distinct.\<close>

definition ALLOWED_get :: "string \<Rightarrow> string list option" where
  "ALLOWED_get col = map_of ALLOWED col"

section \<open>The value normalizer\<close>

definition OTHER_LABEL :: string where
  "OTHER_LABEL = ''other''"

text \<open>
  \<^verbatim>\<open>
  def bucket_value(value, allowed):
      if pd.isna(value) or value is None:
          return ""
      v = str(value).strip()
      if not v:
          return ""
      return v if v in allowed else OTHER_LABEL
  \<close>
\<close>

definition bucket_value :: "cell \<Rightarrow> string list \<Rightarrow> string" where
  "bucket_value v0 allowed =
     (if isna v0 \<or> v0 = PyNone then ''''
      else let v = strip (str v0) in
        if v = [] then ''''
        else if v \<in> set allowed then v else OTHER_LABEL)"

section \<open>The multi-select expander\<close>

text \<open>
  \<open>raw.split(",")\<close>: the fragments between the separators, in order; the empty string
  splits into one empty fragment.
\<close>

fun split_on :: "char \<Rightarrow> string \<Rightarrow> string list" where
  "split_on d [] = [[]]"
| "split_on d (c # cs) =
     (if c = d then [] # split_on d cs
      else (case split_on d cs of
              [] \<Rightarrow> [[c]]
            | p # ps \<Rightarrow> (c # p) # ps))"

text \<open>
  \<^verbatim>\<open>
  def explode_multiselect(series, allowed):
      items = []
      for raw in series.dropna().astype(str):
          parts = [p.strip() for p in raw.split(",") if p.strip()]
          if not parts:
              continue
          for p in parts:
              items.append(bucket_value(p, allowed))
      return pd.Series([i for i in items if i])
  \<close>
  \<open>explode_items\<close> is the outer loop, returning what it appends to \<open>items\<close>.
\<close>

definition parts_of :: "string \<Rightarrow> string list" where
  "parts_of raw = [strip p. p \<leftarrow> split_on (CHR '','') raw, strip p \<noteq> []]"

fun explode_items :: "string list \<Rightarrow> string list \<Rightarrow> string list" where
  "explode_items [] allowed = []"
| "explode_items (raw # rest) allowed =
     (let parts = parts_of raw in
      if parts = [] then explode_items rest allowed
      else map (\<lambda>p. bucket_value (Val p) allowed) parts @ explode_items rest allowed)"

definition explode_multiselect :: "cell list \<Rightarrow> string list \<Rightarrow> string list" where
  "explode_multiselect series allowed =
     filter (\<lambda>i. i \<noteq> []) (explode_items (map str (dropna series)) allowed)"

section \<open>The frequency aggregator\<close>

text \<open>
  A data frame: its column labels and its rows, each row giving the cell of every column.
  \<open>df[col]\<close> raises \<open>KeyError\<close> for a label that is not a column.
\<close>

record dataframe =
  columns :: "string list"
  rows :: "(string \<Rightarrow> cell) list"

datatype py_error = KeyError

definition column :: "dataframe \<Rightarrow> string \<Rightarrow> cell list" where
  "column df col = map (\<lambda>r. r col) (rows df)"

text \<open>
  \<open>Series.unique()\<close>: the distinct values in order of first appearance.
  \<open>Series.value_counts(dropna=True)\<close>: each distinct value with its number of
  occurrences, sorted by count, largest first. Values with equal counts are kept in order
  of first appearance, which is what a stable sort of the hash table's entries gives;
  pandas does not document the order of ties.
\<close>

definition unique :: "'a list \<Rightarrow> 'a list" where
  "unique xs = rev (remdups (rev xs))"

definition value_counts :: "string list \<Rightarrow> (string \<times> nat) list" where
  "value_counts s =
     sort_key (\<lambda>(a, c). - int c) (map (\<lambda>a. (a, count_list s a)) (unique s))"

text \<open>
  \<open>Series.round(1)\<close> rounds to one decimal place, a tie going to the even digit. The
  model computes with exact numbers: a percentage is the decimal fraction the rounded
  float stands for, and the quotient \<open>count / total * 100\<close> is exact.
\<close>

definition round_half_even :: "real \<Rightarrow> int" where
  "round_half_even x =
     (let f = \<lfloor>x\<rfloor>; d = x - of_int f in
      if d < 1 / 2 then f
      else if d > 1 / 2 then f + 1
      else if even f then f else f + 1)"

definition round1 :: "real \<Rightarrow> real" where
  "round1 x = of_int (round_half_even (x * 10)) / 10"

record freq_row =
  answer :: string
  count :: nat
  percentage :: real

text \<open>
  The common tail of both branches of \<open>frequency_for_question\<close>:
  \<^verbatim>\<open>
      counts = s.value_counts(dropna=True)
      total = counts.sum()
      percentages = (counts / total * 100).round(1) if total > 0 else counts * 0
      out = pd.DataFrame({"answer": counts.index, "count": counts.values,
                          "percentage": percentages.values})
  \<close>
\<close>

definition frequency_table :: "string list \<Rightarrow> freq_row list" where
  "frequency_table s =
     (let counts = value_counts s;
          total = sum_list (map snd counts);
          percentages =
            (if total > 0
             then map (\<lambda>(a, c). round1 (real c / real total * 100)) counts
             else map (\<lambda>(a, c). real c * 0) counts)
      in map (\<lambda>((a, c), p). \<lparr>answer = a, count = c, percentage = p\<rparr>)
           (zip counts percentages))"

text \<open>
  The series \<open>s\<close> that is counted, for \<open>allowed = ALLOWED.get(col, None)\<close>,
  \<open>multi = (col in MULTI_SELECT)\<close> and \<open>series = df[col]\<close>:
  \<^verbatim>\<open>
      if col in MULTI_SELECT:
          if allowed is None:
              # if not specified, just count raw options
              s = explode_multiselect(df[col], allowed=[])
          else:
              s = explode_multiselect(df[col], allowed=allowed)
          ...
      s = df[col]
      if allowed is not None:
          s = s.apply(lambda v: bucket_value(v, allowed) if pd.notna(v) else "")
          s = s[s != ""]
      else:
          s = s.apply(lambda v: str(v).strip() if pd.notna(v) else "")
          s = s[s != ""]
  \<close>
\<close>

definition tokens :: "string list option \<Rightarrow> bool \<Rightarrow> cell list \<Rightarrow> string list" where
  "tokens allowed multi series =
     (if multi then
        (case allowed of
           None \<Rightarrow> explode_multiselect series []
         | Some al \<Rightarrow> explode_multiselect series al)
      else
        (case allowed of
           Some al \<Rightarrow>
             filter (\<lambda>t. t \<noteq> [])
               (map (\<lambda>v. if notna v then bucket_value v al else []) series)
         | None \<Rightarrow>
             filter (\<lambda>t. t \<noteq> [])
               (map (\<lambda>v. if notna v then strip (str v) else []) series)))"

definition frequency_of :: "string list option \<Rightarrow> bool \<Rightarrow> cell list \<Rightarrow> freq_row list" where
  "frequency_of allowed multi series = frequency_table (tokens allowed multi series)"

definition frequency_for_question :: "dataframe \<Rightarrow> string \<Rightarrow> py_error + freq_row list" where
  "frequency_for_question df col =
     (if col \<notin> set (columns df) then Inl KeyError
      else Inr (frequency_of (ALLOWED_get col) (col \<in> set MULTI_SELECT) (column df col)))"

section \<open>The free-text themer\<close>











section \<open>The filter engine\<close>

text \<open>
  \<^verbatim>\<open>
  def apply_demographic_filters(df):
      filtered = df.copy()
      for col in DEMOGRAPHIC_COLS:
          if col not in filtered.columns:
              continue
          allowed = ALLOWED.get(col, None)
          options = sorted([o for o in filtered[col].dropna().unique().astype(str)])
          if allowed:
              # keep the allowed order, append any weird values so user can still filter them
              weird = [o for o in options if o not in allowed]
              options = allowed + sorted(weird)
          selected = st.sidebar.multiselect(col, options=options, default=[])
          if selected:
              filtered = filtered[filtered[col].astype(str).isin(selected)]
      return filtered
  \<close>
  The sidebar widget is a parameter: a function from the widget's label and the options
  it shows to the list the user has selected. \<open>sorted\<close> on strings compares code points
  lexicographically, which is the order of \<open>string\<close> here. \<open>demographic_options\<close> is the
  value of \<open>options\<close> handed to the widget.
\<close>

type_synonym multiselect = "string \<Rightarrow> string list \<Rightarrow> string list"

definition demographic_options :: "dataframe \<Rightarrow> string \<Rightarrow> string list" where
  "demographic_options filtered col =
     (let allowed = ALLOWED_get col;
          options = sort (map str (unique (dropna (column filtered col))))
      in case allowed of
           None \<Rightarrow> options
         | Some al \<Rightarrow>
             if al \<noteq> [] then al @ sort (filter (\<lambda>opt. opt \<notin> set al) options)
             else options)"

fun filter_loop :: "multiselect \<Rightarrow> string list \<Rightarrow> dataframe \<Rightarrow> dataframe" where
  "filter_loop ui [] filtered = filtered"
| "filter_loop ui (col # cols) filtered =
     (if col \<notin> set (columns filtered) then filter_loop ui cols filtered
      else
        (let selected = ui col (demographic_options filtered col) in
         if selected \<noteq> [] then
           filter_loop ui cols
             (filtered\<lparr>rows := filter (\<lambda>r. str (r col) \<in> set selected) (rows filtered)\<rparr>)
         else filter_loop ui cols filtered))"

definition apply_demographic_filters :: "multiselect \<Rightarrow> dataframe \<Rightarrow> dataframe" where
  "apply_demographic_filters ui df = filter_loop ui DEMOGRAPHIC_COLS df"

section \<open>Auxiliary notions for stating the properties\<close>



text \<open>A collection with one column, for stating examples.\<close>

definition single_column :: "string \<Rightarrow> cell list \<Rightarrow> dataframe" where
  "single_column col cells = \<lparr>columns = [col], rows = map (\<lambda>v. (\<lambda>c. v)) cells\<rparr>"

text \<open>A row given by the text of some of its cells; every other cell is missing.\<close>

definition row_of :: "(string \<times> string) list \<Rightarrow> string \<Rightarrow> cell" where
  "row_of kv col = (case map_of kv col of None \<Rightarrow> NaN | Some s \<Rightarrow> Val s)"


section \<open>Facts about trimming\<close>



text \<open>
  The trimmed string is what is left of the text between a whitespace prefix and a
  whitespace suffix, and it neither starts nor ends with whitespace.
\<close>

lemma strip_suffix:
  "dropWhile is_space s = strip s @ rev (takeWhile is_space (rev (dropWhile is_space s)))"
proof -
  let ?m = "dropWhile is_space s"
  have "strip s @ rev (takeWhile is_space (rev ?m))
      = rev (takeWhile is_space (rev ?m) @ dropWhile is_space (rev ?m))"
    by (simp only: strip_def rev_append)
  also have "\<dots> = rev (rev ?m)"
    by (simp only: takeWhile_dropWhile_id)
  finally show ?thesis
    by simp
qed

lemma strip_decomp:
  "\<exists>a b. s = a @ strip s @ b \<and> list_all is_space a \<and> list_all is_space b"
proof -
  let ?a = "takeWhile is_space s"
  let ?m = "dropWhile is_space s"
  let ?b = "rev (takeWhile is_space (rev ?m))"
  have "s = ?a @ ?m"
    by simp
  then have "s = ?a @ strip s @ ?b"
    using strip_suffix [of s] by simp
  moreover have "list_all is_space ?a"
    by (auto simp: list_all_iff dest: set_takeWhileD)
  moreover have "list_all is_space ?b"
    by (auto simp: list_all_iff dest: set_takeWhileD)
  ultimately show ?thesis
    by blast
qed

lemma strip_ends:
  assumes "strip s \<noteq> []"
  shows "\<not> is_space (hd (strip s))" and "\<not> is_space (last (strip s))"
proof -
  let ?m = "dropWhile is_space s"
  let ?r = "dropWhile is_space (rev ?m)"
  have r: "?r \<noteq> []"
    using assms unfolding strip_def by (metis rev.simps(1))
  then have "\<not> is_space (hd ?r)"
    by (rule hd_dropWhile)
  moreover have "last (strip s) = hd ?r"
    using r by (simp only: strip_def last_rev)
  ultimately show "\<not> is_space (last (strip s))"
    by simp
  have "hd ?m = hd (strip s)"
    using assms strip_suffix [of s] by (metis hd_append2)
  moreover have "?m \<noteq> []"
    using assms strip_suffix [of s] by (metis append_is_Nil_conv)
  then have "\<not> is_space (hd ?m)"
    by (rule hd_dropWhile)
  ultimately show "\<not> is_space (hd (strip s))"
    by simp
qed

section \<open>Facts about splitting and expansion\<close>




lemma strip_fixed:
  assumes "s \<noteq> []" "\<not> is_space (hd s)" "\<not> is_space (last s)"
  shows "strip s = s"
proof -
  have a: "dropWhile is_space s = s"
    using assms by (cases s) auto
  have "rev s \<noteq> []" "\<not> is_space (hd (rev s))"
    using assms by (simp_all add: hd_rev)
  then have "dropWhile is_space (rev s) = rev s"
    by (cases "rev s") auto
  with a show ?thesis
    by (simp add: strip_def)
qed

lemma strip_idem: "strip (strip s) = strip s"
proof (cases "strip s = []")
  case True
  have "strip [] = []"
    by (simp add: strip_def)
  with True show ?thesis
    by metis
next
  case False
  then show ?thesis
    by (intro strip_fixed strip_ends)
qed

lemma bucket_value_stripped:
  "strip q \<noteq> [] \<Longrightarrow>
   bucket_value (Val (strip q)) allowed = (if strip q \<in> set allowed then strip q else ''other'')"
  by (simp add: bucket_value_def strip_idem OTHER_LABEL_def)









section \<open>Facts about counting\<close>

lemma set_unique: "set (unique xs) = set xs"
  by (simp add: unique_def)

lemma distinct_unique: "distinct (unique xs)"
  by (simp add: unique_def)

lemma sum_list_insort_key:
  "sum_list (map g (insort_key f x xs)) = g x + sum_list (map g xs)"
  for g :: "'a \<Rightarrow> 'b::comm_monoid_add"
  by (induction xs) (auto simp: ac_simps)

lemma sum_list_sort_key:
  "sum_list (map g (sort_key f xs)) = sum_list (map g xs)"
  for g :: "'a \<Rightarrow> 'b::comm_monoid_add"
  by (induction xs) (auto simp: sum_list_insort_key)

lemma distinct_map_insort_key:
  "distinct (map g (insort_key f x xs)) \<longleftrightarrow> g x \<notin> g ` set xs \<and> distinct (map g xs)"
  by (induction xs) (auto simp: set_insort_key)

lemma distinct_map_sort_key:
  "distinct (map g (sort_key f xs)) \<longleftrightarrow> distinct (map g xs)"
  by (induction xs) (auto simp: distinct_map_insort_key)

lemma set_value_counts:
  "set (value_counts s) = (\<lambda>a. (a, count_list s a)) ` set s"
  by (simp add: value_counts_def set_unique)

lemma distinct_value_counts: "distinct (map fst (value_counts s))"
  by (simp add: value_counts_def distinct_map_sort_key comp_def distinct_unique)

lemma sum_value_counts: "sum_list (map snd (value_counts s)) = length s"
proof -
  have "sum_list (map snd (value_counts s)) = sum_list (map (count_list s) (unique s))"
    by (simp add: value_counts_def sum_list_sort_key comp_def)
  also have "\<dots> = sum (count_list s) (set (unique s))"
    by (rule sum_list_distinct_conv_sum_set) (rule distinct_unique)
  also have "\<dots> = length s"
    by (simp add: set_unique sum_count_set)
  finally show ?thesis .
qed

lemma sorted_neg_rev: "sorted (map (\<lambda>c. - int c) cs) \<Longrightarrow> sorted (rev cs)"
  by (induction cs) (auto simp: sorted_append)

lemma sorted_value_counts: "sorted (rev (map snd (value_counts s)))"
proof -
  have "sorted (map (\<lambda>(a, c). - int c) (value_counts s))"
    unfolding value_counts_def by (rule sorted_sort_key)
  then have "sorted (map (\<lambda>c. - int c) (map snd (value_counts s)))"
    by (simp add: comp_def case_prod_unfold)
  then show ?thesis
    by (rule sorted_neg_rev)
qed

lemma map_zip_fst: "length xs = length ys \<Longrightarrow> map (\<lambda>(x, y). f x) (zip xs ys) = map f xs"
  by (induction xs ys rule: list_induct2) auto

lemma frequency_table_answer: "map answer (frequency_table s) = map fst (value_counts s)"
proof -
  have "map (\<lambda>(x, y). fst x) (zip (value_counts s) ps) = map fst (value_counts s)"
    if "length (value_counts s) = length ps" for ps :: "real list"
    using that by (rule map_zip_fst)
  then show ?thesis
    by (simp add: frequency_table_def Let_def case_prod_unfold comp_def)
qed

lemma frequency_table_count: "map count (frequency_table s) = map snd (value_counts s)"
proof -
  have "map (\<lambda>(x, y). snd x) (zip (value_counts s) ps) = map snd (value_counts s)"
    if "length (value_counts s) = length ps" for ps :: "real list"
    using that by (rule map_zip_fst)
  then show ?thesis
    by (simp add: frequency_table_def Let_def case_prod_unfold comp_def)
qed

lemma frequency_table_total: "sum_list (map count (frequency_table s)) = length s"
  by (simp add: frequency_table_count sum_value_counts)


lemma frequency_table_rows:
  "set (frequency_table s) \<subseteq>
     (\<lambda>a. \<lparr>answer = a, count = count_list s a,
            percentage = round1 (real (count_list s a) / real (length s) * 100)\<rparr>) ` set s"
proof (cases "s = []")
  case True
  then show ?thesis
    by (simp add: frequency_table_def value_counts_def unique_def)
next
  case False
  then have "frequency_table s =
      map (\<lambda>(a, c). \<lparr>answer = a, count = c, percentage = round1 (real c / real (length s) * 100)\<rparr>)
        (value_counts s)"
    by (simp add: frequency_table_def Let_def sum_value_counts zip_map2 zip_same_conv_map
        case_prod_unfold comp_def)
  then show ?thesis
    by (auto simp: set_value_counts)
qed


section \<open>Facts about rounding and the frequency table\<close>







lemma tokens_nonempty: "[] \<notin> set (tokens allowed multi series)"
  by (auto simp: tokens_def explode_multiselect_def split: option.splits)



section \<open>Facts about theming\<close>















section \<open>Facts about filtering\<close>

lemma filter_loop_columns: "columns (filter_loop ui cols df) = columns df"
  by (induction cols arbitrary: df) (auto simp: Let_def)

lemma filter_loop_fixed:
  "filter_loop (\<lambda>col options. sel col) cols df =
     df\<lparr>rows := filter (\<lambda>r. \<forall>col \<in> set cols.
             col \<in> set (columns df) \<and> sel col \<noteq> [] \<longrightarrow> str (r col) \<in> set (sel col))
           (rows df)\<rparr>"
proof (induction cols arbitrary: df)
  case Nil
  then show ?case by simp
next
  case (Cons col cols)
  show ?case
  proof (cases "col \<in> set (columns df) \<and> sel col \<noteq> []")
    case False
    then show ?thesis
      using Cons [of df] by (auto simp: Let_def)
  next
    case True
    let ?df = "df\<lparr>rows := filter (\<lambda>r. str (r col) \<in> set (sel col)) (rows df)\<rparr>"
    have "filter_loop (\<lambda>col options. sel col) (col # cols) df
        = filter_loop (\<lambda>col options. sel col) cols ?df"
      using True by (simp add: Let_def)
    also have "\<dots> = ?df\<lparr>rows := filter (\<lambda>r. \<forall>c \<in> set cols.
             c \<in> set (columns ?df) \<and> sel c \<noteq> [] \<longrightarrow> str (r c) \<in> set (sel c)) (rows ?df)\<rparr>"
      by (rule Cons)
    also have "\<dots> = df\<lparr>rows := filter (\<lambda>r. \<forall>c \<in> set (col # cols).
             c \<in> set (columns df) \<and> sel c \<noteq> [] \<longrightarrow> str (r c) \<in> set (sel c)) (rows df)\<rparr>"
      using True by (auto intro!: filter_cong)
    finally show ?thesis .
  qed
qed

lemma filter_loop_subseq: "subseq (rows (filter_loop ui cols df)) (rows df)"
proof (induction cols arbitrary: df)
  case Nil
  then show ?case by simp
next
  case (Cons col cols)
  let ?df = "df\<lparr>rows := filter (\<lambda>r. str (r col) \<in> set (ui col (demographic_options df col))) (rows df)\<rparr>"
  have "subseq (rows (filter_loop ui cols ?df)) (rows ?df)"
    by (rule Cons)
  moreover have "subseq (rows ?df) (rows df)"
    by simp
  ultimately have "subseq (rows (filter_loop ui cols ?df)) (rows df)"
    by (rule subseq_order.trans)
  then show ?case
    using Cons [of df] by (simp add: Let_def)
qed

lemma filter_loop_none:
  "(\<And>col options. ui col options = []) \<Longrightarrow> filter_loop ui cols df = df"
  by (induction cols arbitrary: df) (auto simp: Let_def)

lemma length_filter_mono:
  "(\<And>x. x \<in> set xs \<Longrightarrow> P x \<Longrightarrow> Q x) \<Longrightarrow> length (filter P xs) \<le> length (filter Q xs)"
  by (induction xs) auto

lemma demographic_allowed:
  "col \<in> set DEMOGRAPHIC_COLS \<Longrightarrow> \<exists>al. ALLOWED_get col = Some al \<and> al \<noteq> []"
  by (auto simp: DEMOGRAPHIC_COLS_def ALLOWED_get_def ALLOWED_def)

section \<open>Claims\<close>






text \<open>
  C4. For the single-select question with the permitted answers \<open>Yes\<close> and \<open>No\<close>, the five
  values \<open>Yes, Yes, No,\<close> blank, \<open>Maybe\<close> give the table \<open>Yes\<close> 2 (50.0), \<open>No\<close> 1 (25.0),
  \<open>other\<close> 1 (25.0): the blank is not counted, so four tokens are counted.
\<close>

theorem frequency_yes_no_scenario:
  "frequency_for_question
     (single_column
        ''Have you ever used a leadership or personality assessment that was NOT required by an employer?''
        (map Val [''Yes'', ''Yes'', ''No'', '''', ''Maybe'']))
     ''Have you ever used a leadership or personality assessment that was NOT required by an employer?''
   = Inr [\<lparr>answer = ''Yes'', count = 2, percentage = 50.0\<rparr>,
          \<lparr>answer = ''No'', count = 1, percentage = 25.0\<rparr>,
          \<lparr>answer = ''other'', count = 1, percentage = 25.0\<rparr>]
   \<and> ALLOWED_get
        ''Have you ever used a leadership or personality assessment that was NOT required by an employer?''
      = Some [''Yes'', ''No'']
   \<and> tokens (Some [''Yes'', ''No'']) False (map Val [''Yes'', ''Yes'', ''No'', '''', ''Maybe''])
      = [''Yes'', ''Yes'', ''No'', ''other'']"
  by code_simp


text \<open>
  C6. Let the user's selection for every demographic question be given by a constraint
  mapping (the empty list for a question without constraint). A row survives filtering if
  and only if, for every demographic question that is a column of the collection and has
  a non-empty accepted list, the row's value converted to a string is in that list: the
  constraints are combined by conjunction, and a question with no constraint or an empty
  accepted list restricts nothing. With no constraints the result is the input, row for
  row. Whatever the widget returns, the columns are kept and the rows of the result are
  rows of the input, in their order. The result is a new value; the input is not changed.
\<close>

theorem filter_rows_iff:
  "rows (apply_demographic_filters (\<lambda>col options. constraints col) df) =
     filter (\<lambda>r. \<forall>col \<in> set DEMOGRAPHIC_COLS.
        col \<in> set (columns df) \<and> constraints col \<noteq> [] \<longrightarrow> str (r col) \<in> set (constraints col))
       (rows df)
   \<and> apply_demographic_filters (\<lambda>col options. []) df = df
   \<and> columns (apply_demographic_filters ui df) = columns df
   \<and> subseq (rows (apply_demographic_filters ui df)) (rows df)"
  by (simp add: apply_demographic_filters_def filter_loop_fixed filter_loop_none
      filter_loop_columns filter_loop_subseq)

theorem filter_rows_iff_witness:
  "map (\<lambda>r. (str (r ''What is your gender?''), str (r ''Which best describes your current role?'')))
     (rows (apply_demographic_filters
        (\<lambda>col options.
           if col = ''What is your gender?'' then [''Male'']
           else if col = ''Which best describes your current role?'' then [''People Manager'', ''Senior Leader'']
           else [])
        \<lparr>columns = [''What is your gender?'', ''Which best describes your current role?''],
         rows = [row_of [(''What is your gender?'', ''Male''),
                         (''Which best describes your current role?'', ''People Manager'')],
                 row_of [(''What is your gender?'', ''Female''),
                         (''Which best describes your current role?'', ''People Manager'')],
                 row_of [(''What is your gender?'', ''Male''),
                         (''Which best describes your current role?'', ''Founder/Executive'')],
                 row_of [(''What is your gender?'', ''Male'')]]\<rparr>))
   = [(''Male'', ''People Manager'')]"
  by (simp add: filter_rows_iff [THEN conjunct1] DEMOGRAPHIC_COLS_def row_of_def)

text \<open>
  C7, as stated, fails where an accepted list is narrowed to the empty list: the empty
  list removes the constraint. Of the two rows \<open>Male\<close> and \<open>Female\<close>, the accepted list
  \<open>[Male]\<close> keeps one, and the empty list, a subset of it, keeps both.
\<close>

theorem filter_monotonic_counterexample:
  "set ([] :: string list) \<subseteq> set [''Male'']
   \<and> length (rows (apply_demographic_filters
         (\<lambda>col options. if col = ''What is your gender?'' then [''Male''] else [])
         (single_column ''What is your gender?'' [Val ''Male'', Val ''Female'']))) = 1
   \<and> length (rows (apply_demographic_filters
         (\<lambda>col options. if col = ''What is your gender?'' then [] else [])
         (single_column ''What is your gender?'' [Val ''Male'', Val ''Female'']))) = 2
   \<and> \<not> length (rows (apply_demographic_filters
         (\<lambda>col options. if col = ''What is your gender?'' then [] else [])
         (single_column ''What is your gender?'' [Val ''Male'', Val ''Female''])))
       \<le> length (rows (apply_demographic_filters
         (\<lambda>col options. if col = ''What is your gender?'' then [''Male''] else [])
         (single_column ''What is your gender?'' [Val ''Male'', Val ''Female''])))"
  by (simp add: apply_demographic_filters_def DEMOGRAPHIC_COLS_def single_column_def Let_def)

text \<open>
  C7, amended. Adding a constraint on a demographic question, or narrowing an accepted
  list to a non-empty sublist, never increases the number of rows that survive: if every
  demographic column that is constrained before is constrained after by a non-empty list
  contained in the one before, then the row count after is at most the row count before.
\<close>

theorem filter_monotonic:
  assumes "\<forall>col \<in> set DEMOGRAPHIC_COLS. col \<in> set (columns df) \<and> before col \<noteq> [] \<longrightarrow>
             after col \<noteq> [] \<and> set (after col) \<subseteq> set (before col)"
  shows "length (rows (apply_demographic_filters (\<lambda>col options. after col) df))
       \<le> length (rows (apply_demographic_filters (\<lambda>col options. before col) df))"
  unfolding apply_demographic_filters_def filter_loop_fixed
  using assms by (auto intro!: length_filter_mono)

theorem filter_monotonic_witness:
  "length (rows (apply_demographic_filters
       (\<lambda>col options. if col = ''What is your gender?'' then [''Male''] else [])
       (single_column ''What is your gender?'' [Val ''Male'', Val ''Female'', Val ''x''])))
   \<le> length (rows (apply_demographic_filters
       (\<lambda>col options. if col = ''What is your gender?'' then [''Male'', ''Female''] else [])
       (single_column ''What is your gender?'' [Val ''Male'', Val ''Female'', Val ''x''])))"
proof -
  have "\<forall>col \<in> set DEMOGRAPHIC_COLS.
      col \<in> set (columns (single_column ''What is your gender?'' [Val ''Male'', Val ''Female'', Val ''x'']))
        \<and> (if col = ''What is your gender?'' then [''Male'', ''Female''] else []) \<noteq> [] \<longrightarrow>
      (if col = ''What is your gender?'' then [''Male''] else []) \<noteq> []
        \<and> set (if col = ''What is your gender?'' then [''Male''] else [])
          \<subseteq> set (if col = ''What is your gender?'' then [''Male'', ''Female''] else [])"
    by simp
  then show ?thesis
    by (rule filter_monotonic)
qed

text \<open>
  C8, as stated, fails: the options are not the observed values alone. For a collection
  whose only gender is \<open>Male\<close>, the widget offers all three permitted answers.
\<close>

theorem demographic_options_counterexample:
  "demographic_options (single_column ''What is your gender?'' [Val ''Male''])
      ''What is your gender?''
     = [''Male'', ''Female'', ''Prefer not to say'']
   \<and> map str (dropna (column (single_column ''What is your gender?'' [Val ''Male''])
        ''What is your gender?'')) = [''Male'']
   \<and> set (demographic_options (single_column ''What is your gender?'' [Val ''Male''])
        ''What is your gender?'')
     \<noteq> set (map str (dropna (column (single_column ''What is your gender?'' [Val ''Male''])
        ''What is your gender?'')))"
  by code_simp

text \<open>
  C8, amended. For every demographic question, the options handed to the widget are the
  whole permitted list of the catalog, in its order and whether or not each answer is
  observed, followed by the observed values (of the non-missing cells of the collection
  as filtered so far, converted to strings) that are not permitted, in sorted order.
\<close>

theorem demographic_options_shape:
  assumes "col \<in> set DEMOGRAPHIC_COLS"
  shows "\<exists>al weird. ALLOWED_get col = Some al
     \<and> demographic_options df col = al @ weird
     \<and> sorted weird
     \<and> set weird = str ` {v \<in> set (column df col). notna v} - set al"
proof -
  obtain al where al: "ALLOWED_get col = Some al" "al \<noteq> []"
    using demographic_allowed [OF assms] by blast
  let ?options = "sort (map str (unique (dropna (column df col))))"
  let ?weird = "sort (filter (\<lambda>opt. opt \<notin> set al) ?options)"
  have "demographic_options df col = al @ ?weird"
    using al by (simp add: demographic_options_def Let_def)
  moreover have "sorted ?weird"
    by simp
  moreover have "set ?weird = str ` {v \<in> set (column df col). notna v} - set al"
    by (auto simp: set_unique dropna_def)
  ultimately show ?thesis
    using al by blast
qed

theorem demographic_options_shape_witness:
  "\<exists>al weird. ALLOWED_get ''What is your gender?'' = Some al
     \<and> demographic_options
          (single_column ''What is your gender?'' [Val ''Male'', Val ''x'', NaN, Val ''b'', Val ''x''])
          ''What is your gender?'' = al @ weird
     \<and> sorted weird
     \<and> set weird =
         str ` {v \<in> set (column
                 (single_column ''What is your gender?'' [Val ''Male'', Val ''x'', NaN, Val ''b'', Val ''x''])
                 ''What is your gender?''). notna v} - set al"
proof -
  have "''What is your gender?'' \<in> set DEMOGRAPHIC_COLS"
    by (simp add: DEMOGRAPHIC_COLS_def)
  then show ?thesis
    by (rule demographic_options_shape)
qed


text \<open>
  C10. For every question and collection, every row of the frequency table has a count
  greater than 0, the answers of the rows are pairwise distinct, and the counts add up to
  the number of tokens counted, none of which is the empty (Absent) token. The count of a
  row is the number of occurrences of its answer among the tokens, and the answers are
  exactly the tokens that occur.
\<close>

theorem frequency_rows_positive_distinct:
  assumes "frequency_for_question df col = Inr T"
  shows "list_all (\<lambda>r. 0 < count r) T
       \<and> distinct (map answer T)
       \<and> sum_list (map count T)
           = length (tokens (ALLOWED_get col) (col \<in> set MULTI_SELECT) (column df col))
       \<and> [] \<notin> set (tokens (ALLOWED_get col) (col \<in> set MULTI_SELECT) (column df col))
       \<and> list_all (\<lambda>r. count r
           = count_list (tokens (ALLOWED_get col) (col \<in> set MULTI_SELECT) (column df col)) (answer r)) T
       \<and> set (map answer T)
           = set (tokens (ALLOWED_get col) (col \<in> set MULTI_SELECT) (column df col))"
proof -
  let ?s = "tokens (ALLOWED_get col) (col \<in> set MULTI_SELECT) (column df col)"
  have T: "T = frequency_table ?s"
    using assms by (auto simp: frequency_for_question_def frequency_of_def split: if_splits)
  have rows: "\<And>r. r \<in> set T \<Longrightarrow> answer r \<in> set ?s \<and> count r = count_list ?s (answer r)"
    unfolding T using frequency_table_rows [of ?s] by auto
  have "0 < count r" if "r \<in> set T" for r
    using rows [OF that] by (metis count_list_0_iff gr0I)
  then have "list_all (\<lambda>r. 0 < count r) T"
    by (simp add: list_all_iff)
  moreover have "distinct (map answer T)"
    by (simp add: T frequency_table_answer distinct_value_counts)
  moreover have "sum_list (map count T) = length ?s"
    unfolding T by (rule frequency_table_total)
  moreover have "[] \<notin> set ?s"
    by (rule tokens_nonempty)
  moreover have "list_all (\<lambda>r. count r = count_list ?s (answer r)) T"
    using rows by (simp add: list_all_iff)
  moreover have "set (map answer T) = set ?s"
    by (simp add: T frequency_table_answer set_value_counts image_image)
  ultimately show ?thesis
    by simp
qed

theorem frequency_rows_positive_distinct_witness:
  "frequency_for_question
      (single_column ''What have you personally paid for?''
         [Val ''Online course, Yoga'', Val '' ,Online course'', PyNone, Val '',''])
      ''What have you personally paid for?''
     = Inr [\<lparr>answer = ''Online course'', count = 2, percentage = 66.7\<rparr>,
            \<lparr>answer = ''other'', count = 1, percentage = 33.3\<rparr>]
   \<and> list_all (\<lambda>r. 0 < count r)
        [\<lparr>answer = ''Online course'', count = 2, percentage = 66.7\<rparr>,
         \<lparr>answer = ''other'', count = 1, percentage = 33.3\<rparr>]
   \<and> distinct (map answer
        [\<lparr>answer = ''Online course'', count = 2, percentage = 66.7\<rparr>,
         \<lparr>answer = ''other'', count = 1, percentage = 33.3\<rparr>])
   \<and> sum_list (map count
        [\<lparr>answer = ''Online course'', count = 2, percentage = 66.7\<rparr>,
         \<lparr>answer = ''other'', count = 1, percentage = 33.3\<rparr>])
     = length (tokens (ALLOWED_get ''What have you personally paid for?'')
         (''What have you personally paid for?'' \<in> set MULTI_SELECT)
         (column (single_column ''What have you personally paid for?''
            [Val ''Online course, Yoga'', Val '' ,Online course'', PyNone, Val '',''])
            ''What have you personally paid for?''))"
proof -
  have h: "frequency_for_question
      (single_column ''What have you personally paid for?''
         [Val ''Online course, Yoga'', Val '' ,Online course'', PyNone, Val '',''])
      ''What have you personally paid for?''
     = Inr [\<lparr>answer = ''Online course'', count = 2, percentage = 66.7\<rparr>,
            \<lparr>answer = ''other'', count = 1, percentage = 33.3\<rparr>]"
    by code_simp
  from frequency_rows_positive_distinct [OF h] h show ?thesis
    by blast
qed

end
